theory Spec2Isabelle
  imports Main
begin

unbundle bit_operations_syntax

section \<open>Text\<close>

text \<open>
  \<^verbatim>\<open>creator.py\<close> is a straight-line Python script: it holds two string literals, writes
  each to a file of the current directory, makes the first file executable and prints a
  confirmation after each. A Python \<^verbatim>\<open>str\<close> is a sequence of Unicode code points, and the
  literals of the script hold code points beyond ASCII (U+1F3D7, U+2705, U+2713, ...), so
  text is modelled as a list of code points and not as a list of 8-bit characters.
\<close>

type_synonym codepoint = nat
type_synonym str = "codepoint list"
type_synonym path = string

text \<open>The code points of an ASCII run of a literal.\<close>

definition lit :: "string \<Rightarrow> str" where
  "lit s = map of_char s"

text \<open>
  A triple-quoted literal that spans several source lines: every line, the last one
  included, is followed by a line feed (the closing quotes stand on a line of their own).
\<close>

definition unlines :: "str list \<Rightarrow> str" where
  "unlines ls = concat (map (\<lambda>l. l @ [10]) ls)"

text \<open>Lines 2 to 41 of the script: the Unix template, one list element per source line.\<close>

definition minimal_build_script :: str where
  \<open>minimal_build_script = unlines
    [lit ''#!/bin/bash'',
     lit ''# minimal-build.sh - Build the simple desktop app'',
     [],
     lit ''echo "'' @ [0x1F3D7, 0xFE0F] @ lit ''  Building Simple P2P Notebook Desktop App"'',
     lit ''echo "============================================"'',
     [],
     lit ''# Clean first'',
     lit ''echo "'' @ [0x1F9F9] @ lit '' Cleaning previous builds..."'',
     lit ''cargo clean'',
     [],
     lit ''echo ""'',
     lit ''echo "'' @ [0x1F980] @ lit '' Building Rust desktop app..."'',
     [],
     lit ''# Build the app'',
     lit ''if cargo tauri build; then'',
     lit ''    echo ""'',
     lit ''    echo "'' @ [0x1F389] @ lit '' SUCCESS! Desktop app built successfully!"'',
     lit ''    echo ""'',
     lit ''    echo "'' @ [0x1F4E6] @ lit '' Your app is ready in src-tauri/target/release/bundle/"'',
     lit ''    echo ""'',
     lit ''    echo "'' @ [0x1F680] @ lit '' To run in development mode:"'',
     lit ''    echo "   cargo tauri dev"'',
     lit ''    echo ""'',
     lit ''    echo "'' @ [0x2705] @ lit '' What you have now:"'',
     lit ''    echo "   - Native desktop application"'',
     lit ''    echo "   - Simple document editor" '',
     lit ''    echo "   - Basic UI with placeholders"'',
     lit ''    echo "   - Ready for P2P features"'',
     lit ''    echo "   - Ready for authentication"'',
     lit ''else'',
     lit ''    echo ""'',
     lit ''    echo "'' @ [0x274C] @ lit '' Build failed. Check the error above."'',
     lit ''    echo ""'',
     lit ''    echo "'' @ [0x1F527] @ lit '' Common fixes:"'',
     lit ''    echo "   1. Make sure you're in the project root"'',
     lit ''    echo "   2. Run: rustup update"'',
     lit ''    echo "   3. Run: cargo install @tauri-apps/cli@^2.0.0"'',
     lit ''    echo "   4. Check system dependencies (Linux)"'',
     lit ''fi'']\<close>

text \<open>Lines 52 to 95 of the script: the Windows template.\<close>

definition minimal_build_bat :: str where
  \<open>minimal_build_bat = unlines
    [lit ''@echo off'',
     lit ''REM minimal-build.bat - Build the simple desktop app'',
     [],
     lit ''echo '' @ [0x1F3D7, 0xFE0F] @ lit ''  Building Simple P2P Notebook Desktop App'',
     lit ''echo ============================================'',
     [],
     lit ''REM Clean first'',
     lit ''echo '' @ [0x1F9F9] @ lit '' Cleaning previous builds...'',
     lit ''cargo clean'',
     [],
     lit ''echo.'',
     lit ''echo '' @ [0x1F980] @ lit '' Building Rust desktop app...'',
     [],
     lit ''REM Build the app'',
     lit ''cargo tauri build'',
     [],
     lit ''if %ERRORLEVEL% EQU 0 ('',
     lit ''    echo.'',
     lit ''    echo '' @ [0x1F389] @ lit '' SUCCESS! Desktop app built successfully!'',
     lit ''    echo.'',
     lit ''    echo '' @ [0x1F4E6] @ lit '' Your app is ready in src-tauri/target/release/bundle/'',
     lit ''    echo.'',
     lit ''    echo '' @ [0x1F680] @ lit '' To run in development mode:'',
     lit ''    echo    cargo tauri dev'',
     lit ''    echo.'',
     lit ''    echo '' @ [0x2705] @ lit '' What you have now:'',
     lit ''    echo    - Native desktop application'',
     lit ''    echo    - Simple document editor'',
     lit ''    echo    - Basic UI with placeholders'',
     lit ''    echo    - Ready for P2P features'',
     lit ''    echo    - Ready for authentication'',
     lit '') else ('',
     lit ''    echo.'',
     lit ''    echo '' @ [0x274C] @ lit '' Build failed. Check the error above.'',
     lit ''    echo.'',
     lit ''    echo '' @ [0x1F527] @ lit '' Common fixes:'',
     lit ''    echo    1. Make sure you're in the project root'',
     lit ''    echo    2. Run: rustup update'',
     lit ''    echo    3. Run: cargo install @tauri-apps/cli@^2.0.0'',
     lit ''    echo    4. Restart command prompt as administrator'',
     lit '')'',
     [],
     lit ''pause'']\<close>

text \<open>The arguments of the two \<^verbatim>\<open>print\<close> calls (lines 49 and 100); U+2713 is the check mark.\<close>

definition created_sh :: str where
  "created_sh = [0x2713] @ lit '' Created minimal-build.sh''"

definition created_bat :: str where
  "created_bat = [0x2713] @ lit '' Created minimal-build.bat''"

section \<open>The world the script runs in\<close>

text \<open>
  The working directory of a POSIX system, holding regular files. A file is an inode: the
  text that was written to it, and its permission bits (a Python \<^verbatim>\<open>int\<close>; \<^verbatim>\<open>0o755\<close> is 493,
  \<^verbatim>\<open>0o666\<close> is 438). The directory maps a name to the number of its inode, so that two names
  can be one file (a hard link, or a symbolic link and its target): what is written or
  chmod-ed through one name is then seen through the other. The content is kept as text,
  the way the text layer of \<^verbatim>\<open>open(..., 'w')\<close> receives it; how an encoding lays the
  characters out in bytes is below this model, whether it can represent them is not.
\<close>

record file_state =
  content :: str
  mode :: int

text \<open>
  The statements that have completed, in program order: a \<^verbatim>\<open>with open\<close> block, a chmod,
  a \<^verbatim>\<open>print\<close>. \<open>Spawned\<close> stands for the start of a process (\<^verbatim>\<open>os.system\<close>, \<^verbatim>\<open>subprocess\<close>);
  the script has no such statement.
\<close>

datatype event = Wrote path | Chmod path int | Printed str | Spawned str

record world =
  dir :: "path \<rightharpoonup> nat"
  inodes :: "file_state list"
  stdout :: str
  history :: "event list"

text \<open>
  The inode a name leads to, and the file seen under a name. A number beyond the inode
  table is a link that dangles: the name leads to no file, and opening it for writing
  creates one.
\<close>

definition resolve :: "world \<Rightarrow> path \<Rightarrow> nat option" where
  "resolve w p =
     (case dir w p of None \<Rightarrow> None | Some i \<Rightarrow> if i < length (inodes w) then Some i else None)"

definition files :: "world \<Rightarrow> path \<rightharpoonup> file_state" where
  "files w p = map_option (\<lambda>i. inodes w ! i) (resolve w p)"

text \<open>
  What the script does not control. Each library call of the script can raise, and
  whether it does is decided by the operating system and the interpreter's settings:
  \<^item> \<open>can_open p\<close>: \<^verbatim>\<open>open(p, 'w')\<close> succeeds (the directory is writable for a new name,
    the file is writable for an old one, the path is valid);
  \<^item> \<open>flush_fails p = Some n\<close>: closing the file raises \<^verbatim>\<open>OSError\<close> (disk full, I/O error)
    after \<open>n\<close> characters have reached it;
  \<^item> \<open>chmod_ok p\<close>: the file system and the ownership of \<open>p\<close> allow the permission change;
  \<^item> \<open>umask\<close>: the bits cleared from the mode of a newly created file;
  \<^item> \<open>privileged\<close>: the process may write to a file without the kernel clearing the
    file's set-user-ID and set-group-ID bits (root);
  \<^item> \<open>file_codec c\<close>: the encoding that \<^verbatim>\<open>open\<close> takes from the locale (the script passes no
    \<^verbatim>\<open>encoding=\<close>) can represent the code point \<open>c\<close>; its error handler is always strict;
  \<^item> \<open>stdout_attached\<close>: \<^verbatim>\<open>sys.stdout\<close> is not \<^verbatim>\<open>None\<close>; \<open>stdout_accepts\<close>: the write that a
    \<^verbatim>\<open>print\<close> makes succeeds (on a full device or a closed pipe it does not; where standard
    output is block-buffered the error shows only when the interpreter flushes at exit,
    after the last statement, and is no exception of the script); \<open>stdout_codec c\<close>: its
    encoding can represent \<open>c\<close>; \<open>stdout_errors\<close>: its error handler, \<open>None\<close> when strict,
    else what it puts in place of a code point that the encoding cannot represent
    (\<^verbatim>\<open>?\<close> under \<^verbatim>\<open>replace\<close>, nothing under \<^verbatim>\<open>ignore\<close>).
  The locale and environment variables such as \<^verbatim>\<open>PYTHONIOENCODING\<close> act through the last
  fields. The script itself reads neither \<^verbatim>\<open>sys.argv\<close> nor \<^verbatim>\<open>os.environ\<close>.
\<close>

record env =
  can_open :: "path \<Rightarrow> bool"
  flush_fails :: "path \<Rightarrow> nat option"
  chmod_ok :: "path \<Rightarrow> bool"
  umask :: int
  privileged :: bool
  file_codec :: "codepoint \<Rightarrow> bool"
  stdout_attached :: bool
  stdout_accepts :: bool
  stdout_codec :: "codepoint \<Rightarrow> bool"
  stdout_errors :: "(codepoint \<Rightarrow> str) option"

text \<open>
  The exceptions the library calls raise, with the statement that raised. The script has
  no \<^verbatim>\<open>try\<close>: an exception ends the run, and the world stays as it was at that moment.
\<close>

datatype site = AtOpen path | AtWrite path | AtChmod path | AtPrint

datatype pyerror = OSError site | UnicodeEncodeError site

type_synonym outcome = "(pyerror \<times> world) + world"

definition encodable :: "(codepoint \<Rightarrow> bool) \<Rightarrow> str \<Rightarrow> bool" where
  "encodable codec s = list_all codec s"

text \<open>
  What standard output makes of a string: a code point its encoding has is written as
  it is, another one as the error handler says; under the strict handler there is no
  result, and \<^verbatim>\<open>print\<close> raises.
\<close>

definition render_char :: "env \<Rightarrow> codepoint \<Rightarrow> str option" where
  "render_char e c =
     (if stdout_codec e c then Some [c] else map_option (\<lambda>h. h c) (stdout_errors e))"

fun render :: "env \<Rightarrow> str \<Rightarrow> str option" where
  "render e [] = Some []"
| "render e (c # s) =
     (case render_char e c of
        None \<Rightarrow> None
      | Some r \<Rightarrow> (case render e s of None \<Rightarrow> None | Some t \<Rightarrow> Some (r @ t)))"

text \<open>
  The mode that a write leaves on a file that existed (Linux): an unprivileged process
  loses the set-user-ID bit (\<^verbatim>\<open>0o4000\<close>, 2048) of the file, and its set-group-ID bit
  (\<^verbatim>\<open>0o2000\<close>, 1024) when the group may execute it (\<^verbatim>\<open>0o010\<close>, 8).
\<close>

definition clear_setid :: "int \<Rightarrow> int" where
  "clear_setid m = (if m AND 8 = 0 then m AND NOT 2048 else m AND NOT 3072)"

definition written_mode :: "env \<Rightarrow> int \<Rightarrow> int" where
  "written_mode e m = (if privileged e then m else clear_setid m)"

section \<open>The statements of the script\<close>

text \<open>
  \<^verbatim>\<open>open(p, 'w')\<close>, once it is allowed: a name that leads to a file truncates that file,
  whatever other names it has; any other name gets a new, empty file of mode
  \<^verbatim>\<open>0o666 & ~umask\<close>. The result is the inode that is now open, and the world.
\<close>

definition open_w :: "env \<Rightarrow> path \<Rightarrow> world \<Rightarrow> nat \<times> world" where
  "open_w e p w =
     (case resolve w p of
        Some i \<Rightarrow>
          (i, w\<lparr>inodes := (inodes w)[i := \<lparr>content = [], mode = written_mode e (mode (inodes w ! i))\<rparr>]\<rparr>)
      | None \<Rightarrow>
          (length (inodes w),
           w\<lparr>dir := (dir w)(p \<mapsto> length (inodes w)),
             inodes := inodes w @ [\<lparr>content = [], mode = 438 AND NOT (umask e)\<rparr>]\<rparr>))"

definition put :: "nat \<Rightarrow> str \<Rightarrow> world \<Rightarrow> world" where
  "put i s w = w\<lparr>inodes := (inodes w)[i := (inodes w ! i)\<lparr>content := s\<rparr>]\<rparr>"

text \<open>
  \<^verbatim>\<open>with open(p, 'w') as f: f.write(s)\<close>. \<^verbatim>\<open>f.write\<close> encodes the whole string before any of
  it reaches the file, and raises \<^verbatim>\<open>UnicodeEncodeError\<close> when a character has no encoding.
  Leaving the \<^verbatim>\<open>with\<close> block closes the file, which flushes the buffer.
\<close>

definition write_file :: "env \<Rightarrow> path \<Rightarrow> str \<Rightarrow> world \<Rightarrow> outcome" where
  "write_file e p s w =
     (if \<not> can_open e p then Inl (OSError (AtOpen p), w)
      else
        let (i, w1) = open_w e p w
        in if \<not> encodable (file_codec e) s then Inl (UnicodeEncodeError (AtWrite p), w1)
           else (case flush_fails e p of
                   Some n \<Rightarrow> Inl (OSError (AtWrite p), put i (take n s) w1)
                 | None \<Rightarrow> Inr ((put i s w1)\<lparr>history := history w @ [Wrote p]\<rparr>)))"

text \<open>
  \<^verbatim>\<open>os.chmod(p, m)\<close>: the name must lead to a file; the permission bits of that file
  become \<open>m\<close>, under every name it has.
\<close>

definition os_chmod :: "env \<Rightarrow> path \<Rightarrow> int \<Rightarrow> world \<Rightarrow> outcome" where
  "os_chmod e p m w =
     (case resolve w p of
        None \<Rightarrow> Inl (OSError (AtChmod p), w)
      | Some i \<Rightarrow>
          if \<not> chmod_ok e p then Inl (OSError (AtChmod p), w)
          else Inr (w\<lparr>inodes := (inodes w)[i := (inodes w ! i)\<lparr>mode := m\<rparr>],
                      history := history w @ [Chmod p m]\<rparr>))"

text \<open>
  \<^verbatim>\<open>print(s)\<close>. Without a standard output the call returns at once. Otherwise the string is
  encoded for standard output, which can raise \<^verbatim>\<open>UnicodeEncodeError\<close>, and written with a
  line feed, which can raise \<^verbatim>\<open>OSError\<close> (a full device, a closed pipe).
\<close>

definition py_print :: "env \<Rightarrow> str \<Rightarrow> world \<Rightarrow> outcome" where
  "py_print e s w =
     (if \<not> stdout_attached e then Inr (w\<lparr>history := history w @ [Printed s]\<rparr>)
      else
        (case render e s of
           None \<Rightarrow> Inl (UnicodeEncodeError AtPrint, w)
         | Some r \<Rightarrow>
             if \<not> stdout_accepts e then Inl (OSError AtPrint, w)
             else Inr (w\<lparr>stdout := stdout w @ r @ [10], history := history w @ [Printed s]\<rparr>)))"

text \<open>
  The module body, statement by statement (lines 43 to 49 and 97 to 100); an exception
  of any statement is the outcome of the run.
\<close>

definition creator :: "env \<Rightarrow> world \<Rightarrow> outcome" where
  "creator e w =
     (case write_file e ''minimal-build.sh'' minimal_build_script w of
        Inl x \<Rightarrow> Inl x
      | Inr w1 \<Rightarrow>
     (case os_chmod e ''minimal-build.sh'' 493 w1 of
        Inl x \<Rightarrow> Inl x
      | Inr w2 \<Rightarrow>
     (case py_print e created_sh w2 of
        Inl x \<Rightarrow> Inl x
      | Inr w3 \<Rightarrow>
     (case write_file e ''minimal-build.bat'' minimal_build_bat w3 of
        Inl x \<Rightarrow> Inl x
      | Inr w4 \<Rightarrow>
     py_print e created_bat w4))))"

section \<open>Reading an outcome\<close>

abbreviation sh_file :: path where "sh_file \<equiv> ''minimal-build.sh''"
abbreviation bat_file :: path where "bat_file \<equiv> ''minimal-build.bat''"

text \<open>The world a run leaves behind, and the exception that ended it, if any.\<close>

definition final :: "outcome \<Rightarrow> world" where
  "final r = (case r of Inl x \<Rightarrow> snd x | Inr w \<Rightarrow> w)"

definition raised :: "outcome \<Rightarrow> pyerror option" where
  "raised r = (case r of Inl x \<Rightarrow> Some (fst x) | Inr w \<Rightarrow> None)"

text \<open>The five statements of the module body, in their order.\<close>

definition plan :: "event list" where
  "plan = [Wrote sh_file, Chmod sh_file 493, Printed created_sh, Wrote bat_file, Printed created_bat]"

text \<open>What a sequence of completed statements has put on standard output.\<close>

fun printed :: "env \<Rightarrow> event list \<Rightarrow> str" where
  "printed e [] = []"
| "printed e (Printed s # evs) =
     (if stdout_attached e then (case render e s of None \<Rightarrow> [] | Some r \<Rightarrow> r @ [10]) else [])
     @ printed e evs"
| "printed e (ev # evs) = printed e evs"


text \<open>
  A run has completed the first \<open>k\<close> statements of the plan and no other: its history and
  its output grew by exactly those, and it ended without exception just when \<open>k\<close> is all.
\<close>

definition reaches :: "env \<Rightarrow> world \<Rightarrow> nat \<Rightarrow> bool" where
  "reaches e w k \<longleftrightarrow>
     history (final (creator e w)) = history w @ take k plan \<and>
     stdout (final (creator e w)) = stdout w @ printed e (take k plan) \<and>
     (raised (creator e w) = None) = (k = length plan)"

text \<open>
  The two names are two files: \<^verbatim>\<open>minimal-build.bat\<close> is absent, or it leads to a file that
  \<^verbatim>\<open>minimal-build.sh\<close> does not lead to. (A \<^verbatim>\<open>minimal-build.bat\<close> that dangles does not
  count: it may be a link to the very file that the script creates first.)
\<close>

definition distinct_files :: "world \<Rightarrow> bool" where
  "distinct_files w \<longleftrightarrow>
     (case dir w bat_file of
        None \<Rightarrow> True
      | Some j \<Rightarrow> j < length (inodes w) \<and> dir w sh_file \<noteq> Some j)"

text \<open>
  The mode of \<^verbatim>\<open>minimal-build.bat\<close> after a run, when it is a file of its own: what the
  write leaves of the old mode if the file was there, the default of a new file if not.
\<close>

definition bat_mode :: "env \<Rightarrow> world \<Rightarrow> int" where
  "bat_mode e w =
     (case files w bat_file of None \<Rightarrow> 438 AND NOT (umask e) | Some f \<Rightarrow> written_mode e (mode f))"

text \<open>
  The conditions on the surroundings that the properties speak of, one by one: both
  names can be opened for writing; what is written reaches both files in full; the
  permission change of the shell script is allowed; the encoding of the files can
  represent the two templates; standard output, if there is one, can render the two
  confirmations and accepts them.
\<close>

definition can_create :: "env \<Rightarrow> bool" where
  "can_create e \<longleftrightarrow> can_open e sh_file \<and> can_open e bat_file"

definition can_store :: "env \<Rightarrow> bool" where
  "can_store e \<longleftrightarrow> flush_fails e sh_file = None \<and> flush_fails e bat_file = None"

definition chmod_supported :: "env \<Rightarrow> bool" where
  "chmod_supported e \<longleftrightarrow> chmod_ok e sh_file"

definition templates_fit :: "env \<Rightarrow> bool" where
  "templates_fit e \<longleftrightarrow>
     encodable (file_codec e) minimal_build_script \<and> encodable (file_codec e) minimal_build_bat"

definition stdout_fit :: "env \<Rightarrow> bool" where
  "stdout_fit e \<longleftrightarrow>
     (stdout_attached e \<longrightarrow>
        render e created_sh \<noteq> None \<and> render e created_bat \<noteq> None \<and> stdout_accepts e)"

section \<open>Concrete surroundings\<close>

text \<open>
  Three encodings by the code points they represent: UTF-8 (every scalar value),
  ISO 8859-1 (the first 256 code points) and ASCII.
\<close>

definition utf8 :: "codepoint \<Rightarrow> bool" where
  "utf8 c \<longleftrightarrow> c < 0x110000 \<and> \<not> (0xD800 \<le> c \<and> c \<le> 0xDFFF)"

definition latin1 :: "codepoint \<Rightarrow> bool" where
  "latin1 c \<longleftrightarrow> c < 256"

definition ascii :: "codepoint \<Rightarrow> bool" where
  "ascii c \<longleftrightarrow> c < 128"

text \<open>
  An unprivileged user in a directory of their own on a POSIX system, UTF-8 locale,
  umask \<^verbatim>\<open>0o022\<close>, standard output a terminal. Then the same with one thing changed: run
  by root; an ISO 8859-1 locale; standard output set to ASCII, strict
  (\<^verbatim>\<open>PYTHONIOENCODING=ascii\<close>) or replacing (\<^verbatim>\<open>PYTHONIOENCODING=ascii:replace\<close>); standard
  output on a full device; umask \<^verbatim>\<open>0o077\<close>; a file system without permission bits.
\<close>

definition posix_utf8 :: env where
  "posix_utf8 = \<lparr>can_open = (\<lambda>p. True), flush_fails = (\<lambda>p. None), chmod_ok = (\<lambda>p. True),
     umask = 18, privileged = False, file_codec = utf8,
     stdout_attached = True, stdout_accepts = True, stdout_codec = utf8, stdout_errors = None\<rparr>"

definition root_utf8 :: env where
  "root_utf8 = posix_utf8\<lparr>privileged := True\<rparr>"

definition latin1_locale :: env where
  "latin1_locale = posix_utf8\<lparr>file_codec := latin1, stdout_codec := latin1\<rparr>"

definition ascii_stdout :: env where
  "ascii_stdout = posix_utf8\<lparr>stdout_codec := ascii\<rparr>"


definition full_stdout :: env where
  "full_stdout = posix_utf8\<lparr>stdout_accepts := False\<rparr>"

definition private_umask :: env where
  "private_umask = posix_utf8\<lparr>umask := 63\<rparr>"


text \<open>
  An empty directory; one where both names are taken by other files (modes \<^verbatim>\<open>0o600\<close> and
  \<^verbatim>\<open>0o644\<close>); one where both names are links to one file (mode \<^verbatim>\<open>0o644\<close>); and one where
  \<^verbatim>\<open>minimal-build.bat\<close> is a set-user-ID file (mode \<^verbatim>\<open>0o4755\<close>, 2541).
\<close>

definition empty_dir :: world where
  "empty_dir = \<lparr>dir = Map.empty, inodes = [], stdout = [], history = []\<rparr>"

definition stale_dir :: world where
  "stale_dir = \<lparr>dir = [sh_file \<mapsto> 0, bat_file \<mapsto> 1],
                inodes = [\<lparr>content = lit ''echo old'', mode = 384\<rparr>,
                          \<lparr>content = lit ''rem old'', mode = 420\<rparr>],
                stdout = lit ''$ python creator.py'' @ [10], history = []\<rparr>"


definition setuid_dir :: world where
  "setuid_dir = \<lparr>dir = [sh_file \<mapsto> 0, bat_file \<mapsto> 1],
                 inodes = [\<lparr>content = lit ''echo old'', mode = 420\<rparr>,
                           \<lparr>content = lit ''rem old'', mode = 2541\<rparr>],
                 stdout = [], history = []\<rparr>"

section \<open>What a run does\<close>

subsection \<open>The statements, when they succeed\<close>

lemma write_file_new:
  assumes "resolve w p = None" and "write_file e p s w = Inr w'"
  shows "w' = w\<lparr>dir := (dir w)(p \<mapsto> length (inodes w)),
                inodes := inodes w @ [\<lparr>content = s, mode = 438 AND NOT (umask e)\<rparr>],
                history := history w @ [Wrote p]\<rparr>"
  using assms
  by (auto simp: write_file_def open_w_def put_def split: if_splits option.splits)

lemma write_file_old:
  assumes "resolve w p = Some i" and "write_file e p s w = Inr w'"
  shows "w' = w\<lparr>inodes := (inodes w)[i := \<lparr>content = s, mode = written_mode e (mode (inodes w ! i))\<rparr>],
                history := history w @ [Wrote p]\<rparr>"
  using assms
  by (auto simp: write_file_def open_w_def put_def resolve_def split: if_splits option.splits)

lemma os_chmod_Inr:
  assumes "os_chmod e p m w = Inr w'"
  shows "\<exists>i. resolve w p = Some i \<and>
           w' = w\<lparr>inodes := (inodes w)[i := (inodes w ! i)\<lparr>mode := m\<rparr>],
                  history := history w @ [Chmod p m]\<rparr>"
  using assms by (auto simp: os_chmod_def split: if_splits option.splits)

lemma py_print_Inr:
  assumes "py_print e s w = Inr w'"
  shows "w' = w\<lparr>stdout := stdout w @ printed e [Printed s], history := history w @ [Printed s]\<rparr>"
  using assms by (auto simp: py_print_def split: if_splits option.splits)

lemma creator_steps:
  assumes "creator e w = Inr w'"
  obtains w1 w2 w3 w4 where
    "write_file e sh_file minimal_build_script w = Inr w1"
    "os_chmod e sh_file 493 w1 = Inr w2"
    "py_print e created_sh w2 = Inr w3"
    "write_file e bat_file minimal_build_bat w3 = Inr w4"
    "py_print e created_bat w4 = Inr w'"
  using assms unfolding creator_def by (auto split: sum.splits)

subsection \<open>Runs that complete\<close>

text \<open>
  A run that completes is the shell-script stage (write, chmod, print) followed by the
  batch-script stage (write, print). Each stage either adds a file or rewrites the one
  its name leads to.
\<close>

lemma clear_setid_493 [simp]: "clear_setid 493 = 493"
  by (simp add: clear_setid_def)

lemma written_mode_493 [simp]: "written_mode e 493 = 493"
  by (simp add: written_mode_def)

lemma sh_stage:
  assumes s1: "write_file e sh_file minimal_build_script w = Inr w1"
    and s2: "os_chmod e sh_file 493 w1 = Inr w2"
    and s3: "py_print e created_sh w2 = Inr w3"
  shows "(resolve w sh_file = None \<longrightarrow>
            dir w3 = (dir w)(sh_file \<mapsto> length (inodes w)) \<and>
            inodes w3 = inodes w @ [\<lparr>content = minimal_build_script, mode = 493\<rparr>]) \<and>
         (\<forall>i. resolve w sh_file = Some i \<longrightarrow>
            dir w3 = dir w \<and>
            inodes w3 = (inodes w)[i := \<lparr>content = minimal_build_script, mode = 493\<rparr>]) \<and>
         stdout w3 = stdout w @ printed e [Printed created_sh] \<and>
         history w3 = history w @ [Wrote sh_file, Chmod sh_file 493, Printed created_sh]"
proof (cases "resolve w sh_file")
  case None
  note w1 = write_file_new [OF None s1]
  have "resolve w1 sh_file = Some (length (inodes w))"
    by (simp add: w1 resolve_def)
  with os_chmod_Inr [OF s2] have w2: "w2 = w1\<lparr>inodes := (inodes w1)[length (inodes w) :=
      (inodes w1 ! length (inodes w))\<lparr>mode := 493\<rparr>], history := history w1 @ [Chmod sh_file 493]\<rparr>"
    by auto
  show ?thesis
    using None by (simp add: py_print_Inr [OF s3] w2 w1)
next
  case (Some i)
  note w1 = write_file_old [OF Some s1]
  from Some have i: "i < length (inodes w)"
    by (auto simp: resolve_def split: option.splits if_splits)
  have "resolve w1 sh_file = Some i"
    using Some by (auto simp: w1 resolve_def split: option.splits if_splits)
  with os_chmod_Inr [OF s2] have w2: "w2 = w1\<lparr>inodes := (inodes w1)[i :=
      (inodes w1 ! i)\<lparr>mode := 493\<rparr>], history := history w1 @ [Chmod sh_file 493]\<rparr>"
    by auto
  show ?thesis
    using Some i by (simp add: py_print_Inr [OF s3] w2 w1)
qed

lemma bat_stage:
  assumes s4: "write_file e bat_file minimal_build_bat w3 = Inr w4"
    and s5: "py_print e created_bat w4 = Inr w'"
  shows "(resolve w3 bat_file = None \<longrightarrow>
            dir w' = (dir w3)(bat_file \<mapsto> length (inodes w3)) \<and>
            inodes w' = inodes w3 @ [\<lparr>content = minimal_build_bat, mode = 438 AND NOT (umask e)\<rparr>]) \<and>
         (\<forall>j. resolve w3 bat_file = Some j \<longrightarrow>
            dir w' = dir w3 \<and>
            inodes w' = (inodes w3)[j := \<lparr>content = minimal_build_bat,
                                         mode = written_mode e (mode (inodes w3 ! j))\<rparr>]) \<and>
         stdout w' = stdout w3 @ printed e [Printed created_bat] \<and>
         history w' = history w3 @ [Wrote bat_file, Printed created_bat]"
proof (cases "resolve w3 bat_file")
  case None
  show ?thesis
    using None by (simp add: py_print_Inr [OF s5] write_file_new [OF None s4])
next
  case (Some j)
  show ?thesis
    using Some by (simp add: py_print_Inr [OF s5] write_file_old [OF Some s4])
qed

lemma creator_Inr_output:
  assumes "creator e w = Inr w'"
  shows "stdout w' = stdout w @ printed e plan \<and> history w' = history w @ plan"
proof -
  from assms(1) obtain w1 w2 w3 w4 where
    s1: "write_file e sh_file minimal_build_script w = Inr w1" and
    s2: "os_chmod e sh_file 493 w1 = Inr w2" and
    s3: "py_print e created_sh w2 = Inr w3" and
    s4: "write_file e bat_file minimal_build_bat w3 = Inr w4" and
    s5: "py_print e created_bat w4 = Inr w'"
    by (rule creator_steps)
  from sh_stage [OF s1 s2 s3] bat_stage [OF s4 s5] show ?thesis
    by (simp add: plan_def)
qed


lemma creator_Inr_sh:
  assumes "creator e w = Inr w'"
  shows "\<exists>f. files w' sh_file = Some f \<and> mode f = 493 \<and>
           (content f = minimal_build_script \<or> content f = minimal_build_bat)"
proof -
  from assms(1) obtain w1 w2 w3 w4 where
    s1: "write_file e sh_file minimal_build_script w = Inr w1" and
    s2: "os_chmod e sh_file 493 w1 = Inr w2" and
    s3: "py_print e created_sh w2 = Inr w3" and
    s4: "write_file e bat_file minimal_build_bat w3 = Inr w4" and
    s5: "py_print e created_bat w4 = Inr w'"
    by (rule creator_steps)
  from sh_stage [OF s1 s2 s3] bat_stage [OF s4 s5] show ?thesis
    by (cases "resolve w sh_file"; cases "resolve w3 bat_file")
      (auto simp: files_def resolve_def nth_append nth_list_update split: option.splits if_splits)
qed

lemma creator_Inr_distinct:
  assumes "creator e w = Inr w'" and "distinct_files w"
  shows "files w' sh_file = Some \<lparr>content = minimal_build_script, mode = 493\<rparr> \<and>
         files w' bat_file = Some \<lparr>content = minimal_build_bat, mode = bat_mode e w\<rparr>"
proof -
  from assms(1) obtain w1 w2 w3 w4 where
    s1: "write_file e sh_file minimal_build_script w = Inr w1" and
    s2: "os_chmod e sh_file 493 w1 = Inr w2" and
    s3: "py_print e created_sh w2 = Inr w3" and
    s4: "write_file e bat_file minimal_build_bat w3 = Inr w4" and
    s5: "py_print e created_bat w4 = Inr w'"
    by (rule creator_steps)
  from sh_stage [OF s1 s2 s3] bat_stage [OF s4 s5] assms(2) show ?thesis
    by (cases "resolve w sh_file"; cases "resolve w3 bat_file")
      (auto simp: files_def resolve_def distinct_files_def bat_mode_def nth_append nth_list_update
        split: option.splits if_splits)
qed

subsection \<open>What a write leaves of a mode\<close>

lemma and_8_drop [simp]:
  "(m AND NOT 2048) AND 8 = m AND (8::int)" "(m AND NOT 3072) AND 8 = m AND (8::int)"
  by (simp_all add: and.assoc)

lemma clear_setid_idem [simp]: "clear_setid (clear_setid m) = clear_setid m"
  by (simp add: clear_setid_def and.assoc)

lemma clear_setid_new [simp]: "clear_setid (438 AND NOT u) = 438 AND NOT u"
proof -
  have keep: "(438 AND NOT u) AND d = 438 AND NOT u" if "438 AND d = (438::int)" for d :: int
  proof -
    have "(438 AND NOT u) AND d = (438 AND d) AND NOT u"
      by (simp add: and.assoc and.commute and.left_commute)
    then show ?thesis using that by simp
  qed
  have "(438 AND NOT u) AND NOT 2048 = 438 AND NOT u" "(438 AND NOT u) AND NOT 3072 = 438 AND NOT u"
    by (rule keep, simp)+
  then show ?thesis by (simp add: clear_setid_def)
qed

lemma clear_setid_2541: "clear_setid 2541 = 493"
  by (simp add: clear_setid_def)

subsection \<open>When a run completes, and how it fails\<close>

lemma open_w_frame [simp]:
  "stdout (snd (open_w e p w)) = stdout w" "history (snd (open_w e p w)) = history w"
  by (simp_all add: open_w_def split: option.splits)

lemma put_frame [simp]: "stdout (put i s w) = stdout w" "history (put i s w) = history w"
  by (simp_all add: put_def)

lemma open_w_resolves: "resolve (put (fst (open_w e p w)) s (snd (open_w e p w))) p \<noteq> None"
  by (auto simp: open_w_def put_def resolve_def split: option.splits if_splits)

lemma write_file_Inr_iff:
  "(\<exists>w'. write_file e p s w = Inr w') \<longleftrightarrow>
     can_open e p \<and> encodable (file_codec e) s \<and> flush_fails e p = None"
  by (auto simp: write_file_def split: if_splits option.splits prod.splits)

lemma write_file_resolves:
  assumes "write_file e p s w = Inr w'"
  shows "resolve w' p \<noteq> None"
proof (cases "resolve w p")
  case None
  show ?thesis by (simp add: write_file_new [OF None assms] resolve_def)
next
  case (Some i)
  then show ?thesis
    by (auto simp: write_file_old [OF Some assms] resolve_def split: option.splits if_splits)
qed

lemma os_chmod_Inr_iff:
  "(\<exists>w'. os_chmod e p m w = Inr w') \<longleftrightarrow> resolve w p \<noteq> None \<and> chmod_ok e p"
  by (auto simp: os_chmod_def split: if_splits option.splits)

lemma py_print_Inr_iff:
  "(\<exists>w'. py_print e s w = Inr w') \<longleftrightarrow>
     (stdout_attached e \<longrightarrow> render e s \<noteq> None \<and> stdout_accepts e)"
  by (auto simp: py_print_def split: if_splits option.splits)

lemma creator_completes_iff:
  "(\<exists>w'. creator e w = Inr w') \<longleftrightarrow>
     can_create e \<and> can_store e \<and> chmod_supported e \<and> templates_fit e \<and> stdout_fit e"
proof
  assume "\<exists>w'. creator e w = Inr w'"
  then obtain w' where run: "creator e w = Inr w'" ..
  from run obtain w1 w2 w3 w4 where
    s1: "write_file e sh_file minimal_build_script w = Inr w1" and
    s2: "os_chmod e sh_file 493 w1 = Inr w2" and
    s3: "py_print e created_sh w2 = Inr w3" and
    s4: "write_file e bat_file minimal_build_bat w3 = Inr w4" and
    s5: "py_print e created_bat w4 = Inr w'"
    by (rule creator_steps)
  from s1 s4 have "can_open e sh_file \<and> encodable (file_codec e) minimal_build_script \<and>
      flush_fails e sh_file = None \<and> can_open e bat_file \<and>
      encodable (file_codec e) minimal_build_bat \<and> flush_fails e bat_file = None"
    using write_file_Inr_iff by blast
  moreover from s2 have "chmod_ok e sh_file"
    using os_chmod_Inr_iff by blast
  moreover from s3 s5 have "stdout_attached e \<longrightarrow>
      render e created_sh \<noteq> None \<and> render e created_bat \<noteq> None \<and> stdout_accepts e"
    using py_print_Inr_iff by blast
  ultimately show "can_create e \<and> can_store e \<and> chmod_supported e \<and> templates_fit e \<and> stdout_fit e"
    by (simp add: can_create_def can_store_def chmod_supported_def templates_fit_def stdout_fit_def)
next
  assume ok: "can_create e \<and> can_store e \<and> chmod_supported e \<and> templates_fit e \<and> stdout_fit e"
  then obtain w1 where s1: "write_file e sh_file minimal_build_script w = Inr w1"
    using write_file_Inr_iff [of e sh_file minimal_build_script w]
    by (auto simp: can_create_def can_store_def templates_fit_def)
  from ok write_file_resolves [OF s1] obtain w2 where s2: "os_chmod e sh_file 493 w1 = Inr w2"
    using os_chmod_Inr_iff [of e sh_file 493 w1] by (auto simp: chmod_supported_def)
  from ok obtain w3 where s3: "py_print e created_sh w2 = Inr w3"
    using py_print_Inr_iff [of e created_sh w2] by (auto simp: stdout_fit_def)
  from ok obtain w4 where s4: "write_file e bat_file minimal_build_bat w3 = Inr w4"
    using write_file_Inr_iff [of e bat_file minimal_build_bat w3]
    by (auto simp: can_create_def can_store_def templates_fit_def)
  from ok obtain w5 where s5: "py_print e created_bat w4 = Inr w5"
    using py_print_Inr_iff [of e created_bat w4] by (auto simp: stdout_fit_def)
  from s1 s2 s3 s4 s5 show "\<exists>w'. creator e w = Inr w'"
    by (simp add: creator_def)
qed

lemma creator_raised:
  "raised (creator e w) \<in>
     {None,
      Some (OSError (AtOpen sh_file)), Some (OSError (AtWrite sh_file)),
      Some (OSError (AtChmod sh_file)),
      Some (OSError (AtOpen bat_file)), Some (OSError (AtWrite bat_file)),
      Some (OSError AtPrint),
      Some (UnicodeEncodeError (AtWrite sh_file)), Some (UnicodeEncodeError AtPrint),
      Some (UnicodeEncodeError (AtWrite bat_file))}"
  unfolding creator_def write_file_def os_chmod_def py_print_def Let_def raised_def
  by (auto split: if_splits option.splits sum.splits prod.splits)

text \<open>Every run, failed or not, has completed a prefix of the plan.\<close>

lemma write_file_trace:
  "case write_file e p s w of
     Inr w' \<Rightarrow> history w' = history w @ [Wrote p] \<and> stdout w' = stdout w
   | Inl x \<Rightarrow> history (snd x) = history w \<and> stdout (snd x) = stdout w"
  by (simp add: write_file_def case_prod_beta split: option.splits)

lemma os_chmod_trace:
  "case os_chmod e p m w of
     Inr w' \<Rightarrow> history w' = history w @ [Chmod p m] \<and> stdout w' = stdout w
   | Inl x \<Rightarrow> history (snd x) = history w \<and> stdout (snd x) = stdout w"
  by (simp add: os_chmod_def split: option.splits)

lemma py_print_trace:
  "case py_print e s w of
     Inr w' \<Rightarrow> history w' = history w @ [Printed s] \<and> stdout w' = stdout w @ printed e [Printed s]
   | Inl x \<Rightarrow> history (snd x) = history w \<and> stdout (snd x) = stdout w"
  by (simp add: py_print_def split: option.splits)

lemma creator_reaches:
  "reaches e w 0 \<or> reaches e w 1 \<or> reaches e w 2 \<or> reaches e w 3 \<or> reaches e w 4 \<or> reaches e w 5"
proof (cases "write_file e sh_file minimal_build_script w")
  case (Inl x)
  with write_file_trace [where e = e and p = sh_file and s = minimal_build_script and w = w] have "reaches e w 0"
    by (simp add: reaches_def creator_def raised_def final_def plan_def)
  then show ?thesis by simp
next
  case s1: (Inr w1)
  show ?thesis
  proof (cases "os_chmod e sh_file 493 w1")
    case (Inl x)
    with s1 write_file_trace [where e = e and p = sh_file and s = minimal_build_script and w = w] os_chmod_trace [where e = e and p = sh_file and m = 493 and w = w1]
    have "reaches e w 1"
      by (simp add: reaches_def creator_def raised_def final_def plan_def)
    then show ?thesis by simp
  next
    case s2: (Inr w2)
    show ?thesis
    proof (cases "py_print e created_sh w2")
      case (Inl x)
      with s1 s2 write_file_trace [where e = e and p = sh_file and s = minimal_build_script and w = w]
        os_chmod_trace [where e = e and p = sh_file and m = 493 and w = w1] py_print_trace [where e = e and s = created_sh and w = w2]
      have "reaches e w 2"
        by (simp add: reaches_def creator_def raised_def final_def plan_def)
      then show ?thesis by simp
    next
      case s3: (Inr w3)
      show ?thesis
      proof (cases "write_file e bat_file minimal_build_bat w3")
        case (Inl x)
        with s1 s2 s3 write_file_trace [where e = e and p = sh_file and s = minimal_build_script and w = w]
          os_chmod_trace [where e = e and p = sh_file and m = 493 and w = w1] py_print_trace [where e = e and s = created_sh and w = w2]
          write_file_trace [where e = e and p = bat_file and s = minimal_build_bat and w = w3]
        have "reaches e w 3"
          by (simp add: reaches_def creator_def raised_def final_def plan_def)
        then show ?thesis by simp
      next
        case s4: (Inr w4)
        show ?thesis
        proof (cases "py_print e created_bat w4")
          case (Inl x)
          with s1 s2 s3 s4 write_file_trace [where e = e and p = sh_file and s = minimal_build_script and w = w]
            os_chmod_trace [where e = e and p = sh_file and m = 493 and w = w1] py_print_trace [where e = e and s = created_sh and w = w2]
            write_file_trace [where e = e and p = bat_file and s = minimal_build_bat and w = w3]
            py_print_trace [where e = e and s = created_bat and w = w4]
          have "reaches e w 4"
            by (simp add: reaches_def creator_def raised_def final_def plan_def)
          then show ?thesis by simp
        next
          case s5: (Inr w5)
          with s1 s2 s3 s4 write_file_trace [where e = e and p = sh_file and s = minimal_build_script and w = w]
            os_chmod_trace [where e = e and p = sh_file and m = 493 and w = w1] py_print_trace [where e = e and s = created_sh and w = w2]
            write_file_trace [where e = e and p = bat_file and s = minimal_build_bat and w = w3]
            py_print_trace [where e = e and s = created_bat and w = w4]
          have "reaches e w 5"
            by (simp add: reaches_def creator_def raised_def final_def plan_def)
          then show ?thesis by simp
        qed
      qed
    qed
  qed
qed

subsection \<open>A failed first stage\<close>





lemma creator_Inr_empty:
  assumes "creator e w = Inr w'" and "dir w = Map.empty"
  shows "dom (files w') = {sh_file, bat_file}"
proof -
  from assms(1) obtain w1 w2 w3 w4 where
    s1: "write_file e sh_file minimal_build_script w = Inr w1" and
    s2: "os_chmod e sh_file 493 w1 = Inr w2" and
    s3: "py_print e created_sh w2 = Inr w3" and
    s4: "write_file e bat_file minimal_build_bat w3 = Inr w4" and
    s5: "py_print e created_bat w4 = Inr w'"
    by (rule creator_steps)
  have n1: "resolve w sh_file = None"
    by (simp add: resolve_def assms(2))
  with sh_stage [OF s1 s2 s3] have w3: "dir w3 = (dir w)(sh_file \<mapsto> length (inodes w))"
    "inodes w3 = inodes w @ [\<lparr>content = minimal_build_script, mode = 493\<rparr>]"
    by simp_all
  then have n3: "resolve w3 bat_file = None"
    by (simp add: resolve_def assms(2))
  with bat_stage [OF s4 s5] w3 have "dir w' = [sh_file \<mapsto> length (inodes w), bat_file \<mapsto> Suc (length (inodes w))]"
    "length (inodes w') = Suc (Suc (length (inodes w)))"
    by (simp_all add: assms(2))
  then show ?thesis
    by (auto simp: files_def resolve_def dom_def split: option.splits if_splits)
qed

subsection \<open>Running twice\<close>

lemma creator_Inr_shape:
  assumes "creator e w = Inr w'"
  shows "\<exists>i j. resolve w' sh_file = Some i \<and> resolve w' bat_file = Some j \<and>
           content (inodes w' ! j) = minimal_build_bat \<and>
           (i = j \<longrightarrow> mode (inodes w' ! j) = 493) \<and>
           (i \<noteq> j \<longrightarrow> inodes w' ! i = \<lparr>content = minimal_build_script, mode = 493\<rparr> \<and>
              (privileged e \<or> clear_setid (mode (inodes w' ! j)) = mode (inodes w' ! j)))"
proof -
  from assms obtain w1 w2 w3 w4 where
    s1: "write_file e sh_file minimal_build_script w = Inr w1" and
    s2: "os_chmod e sh_file 493 w1 = Inr w2" and
    s3: "py_print e created_sh w2 = Inr w3" and
    s4: "write_file e bat_file minimal_build_bat w3 = Inr w4" and
    s5: "py_print e created_bat w4 = Inr w'"
    by (rule creator_steps)
  from sh_stage [OF s1 s2 s3] bat_stage [OF s4 s5] show ?thesis
    by (cases "resolve w sh_file"; cases "resolve w3 bat_file")
      (auto simp: resolve_def written_mode_def nth_append nth_list_update
        split: option.splits if_splits)
qed

lemma creator_rerun:
  assumes r1: "creator e1 w = Inr w1" and r2: "creator e2 w1 = Inr w2"
  shows "dir w2 = dir w1 \<and> length (inodes w2) = length (inodes w1) \<and>
         (\<forall>k. content (inodes w2 ! k) = content (inodes w1 ! k)) \<and>
         ((privileged e1 \<longrightarrow> privileged e2) \<longrightarrow> inodes w2 = inodes w1)"
proof -
  from creator_Inr_shape [OF r1] obtain i j where
    i: "resolve w1 sh_file = Some i" and j: "resolve w1 bat_file = Some j" and
    cj: "content (inodes w1 ! j) = minimal_build_bat" and
    same: "i = j \<longrightarrow> mode (inodes w1 ! j) = 493" and
    diff: "i \<noteq> j \<longrightarrow> inodes w1 ! i = \<lparr>content = minimal_build_script, mode = 493\<rparr> \<and>
              (privileged e1 \<or> clear_setid (mode (inodes w1 ! j)) = mode (inodes w1 ! j))"
    by blast
  from i j have il: "i < length (inodes w1)" and jl: "j < length (inodes w1)"
    by (auto simp: resolve_def split: option.splits if_splits)
  from r2 obtain v1 v2 v3 v4 where
    s1: "write_file e2 sh_file minimal_build_script w1 = Inr v1" and
    s2: "os_chmod e2 sh_file 493 v1 = Inr v2" and
    s3: "py_print e2 created_sh v2 = Inr v3" and
    s4: "write_file e2 bat_file minimal_build_bat v3 = Inr v4" and
    s5: "py_print e2 created_bat v4 = Inr w2"
    by (rule creator_steps)
  from sh_stage [OF s1 s2 s3] i have v3: "dir v3 = dir w1"
    "inodes v3 = (inodes w1)[i := \<lparr>content = minimal_build_script, mode = 493\<rparr>]"
    by simp_all
  with j have "resolve v3 bat_file = Some j"
    by (auto simp: resolve_def split: option.splits if_splits)
  with bat_stage [OF s4 s5] v3 have w2: "dir w2 = dir w1"
    "inodes w2 = (inodes w1)[i := \<lparr>content = minimal_build_script, mode = 493\<rparr>,
       j := \<lparr>content = minimal_build_bat,
              mode = written_mode e2 (mode ((inodes w1)[i := \<lparr>content = minimal_build_script, mode = 493\<rparr>] ! j))\<rparr>]"
    by simp_all
  have c: "content (inodes w2 ! k) = content (inodes w1 ! k)" for k
    using il jl cj diff by (cases "k < length (inodes w1)") (auto simp: w2 nth_list_update)
  have m: "inodes w2 = inodes w1" if "privileged e1 \<longrightarrow> privileged e2"
  proof (rule nth_equalityI)
    show "length (inodes w2) = length (inodes w1)" by (simp add: w2)
  next
    fix k assume "k < length (inodes w2)"
    then show "inodes w2 ! k = inodes w1 ! k"
      using il jl cj same diff that
      by (cases "inodes w1 ! j") (auto simp: w2 nth_list_update written_mode_def)
  qed
  show ?thesis using c m by (simp add: w2)
qed

lemma files_cong:
  assumes "dir w2 = dir w1" and "length (inodes w2) = length (inodes w1)"
  shows "resolve w2 = resolve w1"
  using assms by (auto simp: resolve_def fun_eq_iff split: option.splits)

subsection \<open>What the encodings can represent\<close>

lemma encodable_Nil [simp]: "encodable codec []"
  by (simp add: encodable_def)

lemma encodable_Cons [simp]: "encodable codec (c # s) \<longleftrightarrow> codec c \<and> encodable codec s"
  by (simp add: encodable_def)

lemma encodable_append [simp]:
  "encodable codec (s @ t) \<longleftrightarrow> encodable codec s \<and> encodable codec t"
  by (simp add: encodable_def)

lemma encodable_unlines:
  "encodable codec (unlines ls) \<longleftrightarrow> list_all (\<lambda>l. encodable codec l \<and> codec 10) ls"
  by (induction ls) (simp_all add: unlines_def)

lemma of_char_below: "of_char c < (256::nat)"
  by (simp add: of_char_def)

lemma encodable_lit:
  assumes "\<And>c. c < 256 \<Longrightarrow> codec c"
  shows "encodable codec (lit s)"
  by (simp add: encodable_def lit_def list_all_iff assms of_char_below)

lemma utf8_lit [simp]: "encodable utf8 (lit s)"
  by (rule encodable_lit) (simp add: utf8_def)

lemma latin1_lit [simp]: "encodable latin1 (lit s)"
  by (rule encodable_lit) (simp add: latin1_def)

lemma utf8_script: "encodable utf8 minimal_build_script"
  unfolding minimal_build_script_def by (simp add: encodable_unlines) (simp add: utf8_def)

lemma utf8_bat: "encodable utf8 minimal_build_bat"
  unfolding minimal_build_bat_def by (simp add: encodable_unlines) (simp add: utf8_def)

lemma utf8_created: "encodable utf8 created_sh" "encodable utf8 created_bat"
  unfolding created_sh_def created_bat_def by (simp_all add: utf8_def)

text \<open>The first line with an emoji (U+1F3D7) is beyond ISO 8859-1; the check mark is beyond ASCII.\<close>

lemma latin1_script: "\<not> encodable latin1 minimal_build_script"
  unfolding minimal_build_script_def by (simp add: encodable_unlines) (simp add: latin1_def)


lemma render_encodable:
  assumes "encodable (stdout_codec e) s"
  shows "render e s = Some s"
  using assms by (induction s) (simp_all add: render_char_def)

lemma render_strict:
  assumes "stdout_errors e = None" and "render e s = Some r"
  shows "r = s"
  using assms
  by (induction s arbitrary: r) (auto simp: render_char_def split: option.splits if_splits)

lemma render_cong:
  assumes "stdout_codec ea = stdout_codec eb" and "stdout_errors ea = stdout_errors eb"
  shows "render ea s = render eb s"
proof -
  have "render_char ea c = render_char eb c" for c
    using assms by (simp add: render_char_def)
  then show ?thesis
    by (induction s) (auto split: option.splits)
qed


lemma render_ascii_strict: "render ascii_stdout created_sh = None"
  by (simp add: created_sh_def render_char_def ascii_stdout_def posix_utf8_def ascii_def)


subsection \<open>The concrete surroundings\<close>

lemma posix_fit:
  "can_create posix_utf8" "can_store posix_utf8" "chmod_supported posix_utf8"
  "templates_fit posix_utf8" "stdout_fit posix_utf8"
  by (simp_all add: can_create_def can_store_def chmod_supported_def templates_fit_def
      stdout_fit_def posix_utf8_def utf8_script utf8_bat utf8_created render_encodable)

lemma posix_run: "\<exists>w'. creator posix_utf8 w = Inr w'"
  using posix_fit by (simp add: creator_completes_iff)

lemma private_run: "\<exists>w'. creator private_umask w = Inr w'"
  using posix_fit
  by (simp add: creator_completes_iff can_create_def can_store_def chmod_supported_def
      templates_fit_def stdout_fit_def private_umask_def render_cong [of private_umask posix_utf8]
      render_cong [of "posix_utf8\<lparr>umask := 63\<rparr>" posix_utf8])

lemma root_run: "\<exists>w'. creator root_utf8 w = Inr w'"
  using posix_fit
  by (simp add: creator_completes_iff can_create_def can_store_def chmod_supported_def
      templates_fit_def stdout_fit_def root_utf8_def
      render_cong [of "posix_utf8\<lparr>privileged := True\<rparr>" posix_utf8])


lemma distinct_concrete: "distinct_files empty_dir" "distinct_files stale_dir" "distinct_files setuid_dir"
  by (simp_all add: distinct_files_def empty_dir_def stale_dir_def setuid_dir_def)




lemma creator_Inr_keeps_distinct:
  assumes "creator e w = Inr w'" and "distinct_files w"
  shows "distinct_files w'"
proof -
  from assms(1) obtain w1 w2 w3 w4 where
    s1: "write_file e sh_file minimal_build_script w = Inr w1" and
    s2: "os_chmod e sh_file 493 w1 = Inr w2" and
    s3: "py_print e created_sh w2 = Inr w3" and
    s4: "write_file e bat_file minimal_build_bat w3 = Inr w4" and
    s5: "py_print e created_bat w4 = Inr w'"
    by (rule creator_steps)
  from sh_stage [OF s1 s2 s3] bat_stage [OF s4 s5] assms(2) show ?thesis
    by (cases "resolve w sh_file"; cases "resolve w3 bat_file")
      (auto simp: resolve_def distinct_files_def split: option.splits if_splits)
qed

text \<open>
  A set-user-ID \<^verbatim>\<open>minimal-build.bat\<close> keeps its mode \<^verbatim>\<open>0o4755\<close> when root runs the script, and
  loses the bit when an unprivileged user runs it next: the modes after two runs are the
  modes after one only if the second run has the privilege of the first.
\<close>

lemma rerun_privilege_drop:
  "\<exists>w1 w2. creator root_utf8 setuid_dir = Inr w1 \<and> creator posix_utf8 w1 = Inr w2 \<and>
     files w1 bat_file = Some \<lparr>content = minimal_build_bat, mode = 2541\<rparr> \<and>
     files w2 bat_file = Some \<lparr>content = minimal_build_bat, mode = 493\<rparr>"
proof -
  obtain w1 where r1: "creator root_utf8 setuid_dir = Inr w1"
    using root_run by blast
  obtain w2 where r2: "creator posix_utf8 w1 = Inr w2"
    using posix_run by blast
  have "files setuid_dir bat_file = Some \<lparr>content = lit ''rem old'', mode = 2541\<rparr>"
    by (simp add: files_def resolve_def setuid_dir_def)
  then have "bat_mode root_utf8 setuid_dir = 2541"
    by (simp add: bat_mode_def written_mode_def root_utf8_def)
  with creator_Inr_distinct [OF r1 distinct_concrete(3)]
  have b1: "files w1 bat_file = Some \<lparr>content = minimal_build_bat, mode = 2541\<rparr>"
    by simp
  then have "bat_mode posix_utf8 w1 = 493"
    by (simp add: bat_mode_def written_mode_def posix_utf8_def clear_setid_2541)
  with creator_Inr_distinct [OF r2 creator_Inr_keeps_distinct [OF r1 distinct_concrete(3)]]
  have "files w2 bat_file = Some \<lparr>content = minimal_build_bat, mode = 493\<rparr>"
    by simp
  with b1 r1 r2 show ?thesis by blast
qed

lemma ascii_stdout_fields:
  "can_open ascii_stdout p" "flush_fails ascii_stdout p = None" "chmod_ok ascii_stdout p"
  "file_codec ascii_stdout = utf8" "stdout_attached ascii_stdout"
  by (simp_all add: ascii_stdout_def posix_utf8_def)

lemma latin1_locale_fields:
  "can_open latin1_locale p" "flush_fails latin1_locale p = None" "chmod_ok latin1_locale p"
  "file_codec latin1_locale = latin1"
  by (simp_all add: latin1_locale_def posix_utf8_def)




lemma creator_raised_fit:
  assumes "templates_fit e" and "render e created_sh \<noteq> None" and "render e created_bat \<noteq> None"
  shows "raised (creator e w) \<in>
     {None,
      Some (OSError (AtOpen sh_file)), Some (OSError (AtWrite sh_file)),
      Some (OSError (AtChmod sh_file)),
      Some (OSError (AtOpen bat_file)), Some (OSError (AtWrite bat_file)),
      Some (OSError AtPrint)}"
  using assms
  unfolding creator_def write_file_def os_chmod_def py_print_def Let_def raised_def
    templates_fit_def
  by (auto split: if_splits option.splits sum.splits prod.splits)

text \<open>Standard output on a full device: the first \<^verbatim>\<open>print\<close> raises \<^verbatim>\<open>OSError\<close>.\<close>

lemma full_stdout_fields:
  "can_open full_stdout p" "flush_fails full_stdout p = None" "chmod_ok full_stdout p"
  "file_codec full_stdout = utf8" "stdout_attached full_stdout" "\<not> stdout_accepts full_stdout"
  "stdout_codec full_stdout = utf8"
  by (simp_all add: full_stdout_def posix_utf8_def)

lemma full_stdout_run:
  "raised (creator full_stdout empty_dir) = Some (OSError AtPrint) \<and>
   stdout (final (creator full_stdout empty_dir)) = [] \<and>
   dom (files (final (creator full_stdout empty_dir))) = {sh_file}"
proof -
  have "render full_stdout created_sh = Some created_sh"
    by (rule render_encodable) (simp add: full_stdout_fields utf8_created)
  then have "creator full_stdout empty_dir =
      Inl (OSError AtPrint,
           \<lparr>dir = [sh_file \<mapsto> 0],
            inodes = [\<lparr>content = minimal_build_script, mode = 493\<rparr>],
            stdout = [], history = [Wrote sh_file, Chmod sh_file 493]\<rparr>)"
    by (simp add: creator_def write_file_def open_w_def put_def os_chmod_def py_print_def
        resolve_def full_stdout_fields utf8_script empty_dir_def)
  then show ?thesis
    by (auto simp: raised_def final_def files_def resolve_def dom_def
        split: option.splits if_splits)
qed

section \<open>The properties of the specification\<close>








text \<open>
  C4. Running the emitter twice in succession leaves the files as the first run left
  them: nothing is accumulated, appended or duplicated. The second run may meet other
  surroundings than the first. The names and the content under every name are the same
  after the second run as after the first; the modes are the same too, hence the whole
  directory, unless the first run was privileged and the second is not (see
  \<open>rerun_privilege_drop\<close>).
\<close>

theorem rerun_leaves_files:
  assumes "creator e1 w = Inr w1" and "creator e2 w1 = Inr w2"
  shows "dir w2 = dir w1 \<and>
         (\<forall>p. map_option content (files w2 p) = map_option content (files w1 p)) \<and>
         ((privileged e1 \<longrightarrow> privileged e2) \<longrightarrow> files w2 = files w1)"
proof -
  from creator_rerun [OF assms] have d: "dir w2 = dir w1"
    and l: "length (inodes w2) = length (inodes w1)"
    and c: "\<And>k. content (inodes w2 ! k) = content (inodes w1 ! k)"
    and m: "(privileged e1 \<longrightarrow> privileged e2) \<Longrightarrow> inodes w2 = inodes w1"
    by blast+
  have r: "resolve w2 = resolve w1"
    using d l by (rule files_cong)
  have "map_option content (files w2 p) = map_option content (files w1 p)" for p
    by (cases "resolve w1 p") (simp_all add: files_def r c)
  moreover have "files w2 = files w1" if "privileged e1 \<longrightarrow> privileged e2"
    using m [OF that] r by (simp add: files_def fun_eq_iff)
  ultimately show ?thesis using d by blast
qed

theorem rerun_leaves_files_witness:
  "\<exists>w1 w2. creator posix_utf8 empty_dir = Inr w1 \<and> creator private_umask w1 = Inr w2 \<and>
     files w2 = files w1"
proof -
  obtain w1 where r1: "creator posix_utf8 empty_dir = Inr w1"
    using posix_run by blast
  obtain w2 where r2: "creator private_umask w1 = Inr w2"
    using private_run by blast
  have "privileged posix_utf8 \<longrightarrow> privileged private_umask"
    by (simp add: posix_utf8_def)
  with rerun_leaves_files [OF r1 r2] r1 r2 show ?thesis by blast
qed

text \<open>
  C5, as stated, fails: in an empty writable directory the emitter need not create two
  files and print two lines. With the files written as UTF-8 and standard output limited
  to ASCII, the first \<^verbatim>\<open>print\<close> raises \<^verbatim>\<open>UnicodeEncodeError\<close> on the check mark U+2713: one file
  has been created, nothing has been printed. (A standard output that cannot be written
  does the same with \<^verbatim>\<open>OSError\<close>: \<open>full_stdout_run\<close>.)
\<close>

theorem empty_dir_ascii_stdout_counterexample:
  "dir empty_dir = Map.empty \<and> can_create ascii_stdout \<and> can_store ascii_stdout \<and>
   chmod_supported ascii_stdout \<and>
   raised (creator ascii_stdout empty_dir) = Some (UnicodeEncodeError AtPrint) \<and>
   dom (files (final (creator ascii_stdout empty_dir))) = {sh_file} \<and>
   stdout (final (creator ascii_stdout empty_dir)) = []"
proof -
  have "creator ascii_stdout empty_dir =
      Inl (UnicodeEncodeError AtPrint,
           \<lparr>dir = [sh_file \<mapsto> 0],
            inodes = [\<lparr>content = minimal_build_script, mode = 493\<rparr>],
            stdout = [], history = [Wrote sh_file, Chmod sh_file 493]\<rparr>)"
    by (simp add: creator_def write_file_def open_w_def put_def os_chmod_def py_print_def
        resolve_def ascii_stdout_fields utf8_script render_ascii_strict empty_dir_def)
  then show ?thesis
    by (auto simp: raised_def final_def empty_dir_def files_def resolve_def dom_def
        can_create_def can_store_def chmod_supported_def ascii_stdout_fields
        split: option.splits if_splits)
qed

text \<open>
  C5, amended. When the emitter runs in an empty directory and reaches the end of the
  script (no statement raises), it has created exactly two files, \<^verbatim>\<open>minimal-build.sh\<close> and
  \<^verbatim>\<open>minimal-build.bat\<close>. If there is a standard output it has printed exactly two
  confirmation lines, the one for the shell script first: the two messages as standard
  output renders them, which under the strict error handler are the messages
  themselves. If there is no standard output it has printed nothing.
\<close>

theorem empty_dir_two_files_two_lines:
  assumes "dir w = Map.empty" and "creator e w = Inr w'"
  shows "dom (files w') = {sh_file, bat_file} \<and>
         (stdout_attached e \<longrightarrow>
            (\<exists>r1 r2. render e created_sh = Some r1 \<and> render e created_bat = Some r2 \<and>
               stdout w' = stdout w @ r1 @ [10] @ r2 @ [10])) \<and>
         (stdout_attached e \<and> stdout_errors e = None \<longrightarrow>
            stdout w' = stdout w @ created_sh @ [10] @ created_bat @ [10]) \<and>
         (\<not> stdout_attached e \<longrightarrow> stdout w' = stdout w)"
proof -
  have fit: "stdout_fit e"
    using assms(2) creator_completes_iff [of e w] by blast
  have out: "stdout w' = stdout w @ printed e plan"
    using creator_Inr_output [OF assms(2)] by simp
  have "\<exists>r1 r2. render e created_sh = Some r1 \<and> render e created_bat = Some r2 \<and>
      stdout w' = stdout w @ r1 @ [10] @ r2 @ [10]" if "stdout_attached e"
    using that fit out by (auto simp: stdout_fit_def plan_def)
  moreover have "stdout w' = stdout w @ created_sh @ [10] @ created_bat @ [10]"
    if "stdout_attached e \<and> stdout_errors e = None"
    using that fit out render_strict [of e created_sh] render_strict [of e created_bat]
    by (auto simp: stdout_fit_def plan_def)
  moreover have "stdout w' = stdout w" if "\<not> stdout_attached e"
    using that out by (simp add: plan_def)
  ultimately show ?thesis
    using creator_Inr_empty [OF assms(2,1)] by blast
qed

theorem empty_dir_two_files_two_lines_witness:
  "dir empty_dir = Map.empty \<and>
   (\<exists>w'. creator posix_utf8 empty_dir = Inr w' \<and> dom (files w') = {sh_file, bat_file} \<and>
      stdout w' = created_sh @ [10] @ created_bat @ [10])"
proof -
  obtain w' where run: "creator posix_utf8 empty_dir = Inr w'"
    using posix_run by blast
  have e: "dir empty_dir = Map.empty" "stdout empty_dir = []"
    by (simp_all add: empty_dir_def)
  have s: "stdout_attached posix_utf8 \<and> stdout_errors posix_utf8 = None"
    by (simp add: posix_utf8_def)
  from empty_dir_two_files_two_lines [OF e(1) run] s e run show ?thesis by auto
qed







text \<open>
  C8, as stated, fails: a writable directory and a supported permission change do not
  make the emitter complete, and a file system error is not its only failure. Under an
  ISO 8859-1 locale the first \<^verbatim>\<open>f.write\<close> raises \<^verbatim>\<open>UnicodeEncodeError\<close>: the Unix template
  holds U+1F3D7, which the encoding that \<^verbatim>\<open>open\<close> took from the locale cannot represent.
\<close>

theorem latin1_locale_counterexample:
  "can_create latin1_locale \<and> can_store latin1_locale \<and> chmod_supported latin1_locale \<and>
   raised (creator latin1_locale empty_dir) = Some (UnicodeEncodeError (AtWrite sh_file))"
  using latin1_script
  by (simp add: creator_def write_file_def raised_def case_prod_beta latin1_locale_fields
      can_create_def can_store_def chmod_supported_def)

text \<open>
  C8, amended. The library calls of the emitter fail in these ways only: \<^verbatim>\<open>OSError\<close> while
  it opens or writes one of the two files, changes the permissions of
  \<^verbatim>\<open>minimal-build.sh\<close>, or prints; \<^verbatim>\<open>UnicodeEncodeError\<close> while it writes one of the files or
  prints. When the encodings can represent the text, the \<^verbatim>\<open>OSError\<close>s are the only
  failures. The emitter completes without error exactly when both names can be opened
  for writing, what is written reaches both files in full, the permission change is
  allowed, the encoding of the files can represent the two templates, and standard
  output is absent or renders and accepts the two confirmations. The statements a run
  completes are a prefix of the plan, and none of them starts a process.
\<close>

theorem failure_modes:
  "raised (creator e w) \<in>
     {None,
      Some (OSError (AtOpen sh_file)), Some (OSError (AtWrite sh_file)),
      Some (OSError (AtChmod sh_file)),
      Some (OSError (AtOpen bat_file)), Some (OSError (AtWrite bat_file)),
      Some (OSError AtPrint),
      Some (UnicodeEncodeError (AtWrite sh_file)), Some (UnicodeEncodeError AtPrint),
      Some (UnicodeEncodeError (AtWrite bat_file))} \<and>
   (templates_fit e \<and> render e created_sh \<noteq> None \<and> render e created_bat \<noteq> None \<longrightarrow>
      raised (creator e w) \<in>
        {None,
         Some (OSError (AtOpen sh_file)), Some (OSError (AtWrite sh_file)),
         Some (OSError (AtChmod sh_file)),
         Some (OSError (AtOpen bat_file)), Some (OSError (AtWrite bat_file)),
         Some (OSError AtPrint)}) \<and>
   (raised (creator e w) = None \<longleftrightarrow>
      can_create e \<and> can_store e \<and> chmod_supported e \<and> templates_fit e \<and> stdout_fit e) \<and>
   (\<exists>k\<le>length plan. history (final (creator e w)) = history w @ take k plan) \<and>
   (\<forall>c. Spawned c \<notin> set plan)"
proof (intro conjI impI)
  show "raised (creator e w) \<in>
     {None,
      Some (OSError (AtOpen sh_file)), Some (OSError (AtWrite sh_file)),
      Some (OSError (AtChmod sh_file)),
      Some (OSError (AtOpen bat_file)), Some (OSError (AtWrite bat_file)),
      Some (OSError AtPrint),
      Some (UnicodeEncodeError (AtWrite sh_file)), Some (UnicodeEncodeError AtPrint),
      Some (UnicodeEncodeError (AtWrite bat_file))}"
    by (rule creator_raised)
next
  assume "templates_fit e \<and> render e created_sh \<noteq> None \<and> render e created_bat \<noteq> None"
  then show "raised (creator e w) \<in>
        {None,
         Some (OSError (AtOpen sh_file)), Some (OSError (AtWrite sh_file)),
         Some (OSError (AtChmod sh_file)),
         Some (OSError (AtOpen bat_file)), Some (OSError (AtWrite bat_file)),
         Some (OSError AtPrint)}"
    using creator_raised_fit by blast
next
  have "raised (creator e w) = None \<longleftrightarrow> (\<exists>w'. creator e w = Inr w')"
    by (cases "creator e w") (simp_all add: raised_def)
  then show "raised (creator e w) = None \<longleftrightarrow>
      can_create e \<and> can_store e \<and> chmod_supported e \<and> templates_fit e \<and> stdout_fit e"
    by (simp add: creator_completes_iff)
next
  have len: "length plan = 5"
    by (simp add: plan_def)
  have "(0::nat) \<le> 5" "(1::nat) \<le> 5" "(2::nat) \<le> 5" "(3::nat) \<le> 5" "(4::nat) \<le> 5"
    "(5::nat) \<le> 5"
    by simp_all
  with creator_reaches [of e w] have "\<exists>k\<le>5. reaches e w k"
    by blast
  then show "\<exists>k\<le>length plan. history (final (creator e w)) = history w @ take k plan"
    unfolding reaches_def len by blast
next
  show "\<forall>c. Spawned c \<notin> set plan"
    by (simp add: plan_def)
qed

theorem failure_modes_witness:
  "can_create posix_utf8 \<and> can_store posix_utf8 \<and> chmod_supported posix_utf8 \<and>
   templates_fit posix_utf8 \<and> stdout_fit posix_utf8 \<and>
   raised (creator posix_utf8 empty_dir) = None"
  using failure_modes [of posix_utf8 empty_dir] posix_fit by simp



text \<open>
  C10. After a successful run the permission bits of \<^verbatim>\<open>minimal-build.sh\<close> are exactly
  \<^verbatim>\<open>0o755\<close> (493), whatever they were before and whatever the umask is: beyond the
  owner's bits, the group and the others can read and execute (\<^verbatim>\<open>0o055\<close>, 45).
\<close>

theorem sh_mode_is_755:
  assumes "creator e w = Inr w'"
  shows "\<exists>f. files w' sh_file = Some f \<and> mode f = 493 \<and> mode f AND 45 = 45"
  using creator_Inr_sh [OF assms] by auto

theorem sh_mode_is_755_witness:
  "\<exists>w'. creator private_umask stale_dir = Inr w' \<and>
     (\<exists>f. files w' sh_file = Some f \<and> mode f = 493 \<and> mode f AND 45 = 45)"
proof -
  obtain w' where run: "creator private_umask stale_dir = Inr w'"
    using private_run by blast
  from sh_mode_is_755 [OF run] run show ?thesis by blast
qed

end
